theory Spec2Isabelle
  imports Complex_Main "HOL-Library.Multiset" "HOL-Library.Sublist"
begin

section \<open>Values shared by the pipeline modules\<close>

text \<open>
  Python exceptions are values. \<open>External\<close> stands for whatever a third-party call
  (librosa, numpy, sklearn, the storage client, the file system) raises; the string is
  its message. Every handler of the source is \<open>except Exception\<close>, so one type covers
  all of them.
\<close>

datatype error = ValueError | IndexError | ZeroDivisionError | External string

text \<open>
  A waveform is a one-dimensional numpy array of floats, modelled as a list of reals:
  rounding of IEEE arithmetic is not represented.
\<close>

type_synonym audio = "real list"

type_synonym array2d = "real list list"

section \<open>AudioPreprocessor (data\_processing/data\_processor.py)\<close>

record AudioPreprocessor =
  sample_rate :: int
  n_fft :: int
  hop_length :: int
  n_mels :: int
  max_duration :: real
  min_duration :: real


text \<open>Python's \<open>int(x)\<close> on a float truncates towards zero.\<close>

definition py_int :: "real \<Rightarrow> int" where
  "py_int x = (if 0 \<le> x then \<lfloor>x\<rfloor> else \<lceil>x\<rceil>)"

text \<open>
  \<open>audio[:k]\<close>: a negative bound counts from the end, and a bound beyond either end
  is clipped.
\<close>

definition slice_to :: "'a list \<Rightarrow> int \<Rightarrow> 'a list" where
  "slice_to xs k =
     (if 0 \<le> k then take (nat k) xs else take (nat (int (length xs) + k)) xs)"

text \<open>
  \<open>validate_audio_duration\<close>: \<open>len(audio) / self.sample_rate\<close> raises
  ZeroDivisionError for a zero sample rate.
\<close>

definition validate_audio_duration :: "AudioPreprocessor \<Rightarrow> audio \<Rightarrow> error + bool" where
  "validate_audio_duration p a =
     (if sample_rate p = 0 then Inl ZeroDivisionError
      else let duration = real (length a) / real_of_int (sample_rate p)
           in Inr (min_duration p \<le> duration \<and> duration \<le> max_duration p))"

text \<open>
  \<open>trim_or_pad_audio\<close>. \<open>np.pad(audio, (0, padding), constant_values=0)\<close> appends
  \<open>padding\<close> zeros; it is only reached with \<open>padding > 0\<close>.
\<close>

definition trim_or_pad_audio :: "AudioPreprocessor \<Rightarrow> audio \<Rightarrow> int option \<Rightarrow> audio" where
  "trim_or_pad_audio p a target =
     (let target_length =
            (case target of
               None \<Rightarrow> py_int (max_duration p * real_of_int (sample_rate p))
             | Some t \<Rightarrow> t)
      in if int (length a) > target_length then slice_to a target_length
         else if int (length a) < target_length
              then (let padding = target_length - int (length a)
                    in a @ replicate (nat padding) 0)
              else a)"

text \<open>
  \<open>np.max(np.abs(audio))\<close>: numpy raises ValueError on a zero-size array (the
  reduction has no identity).
\<close>

definition np_max_abs :: "audio \<Rightarrow> error + real" where
  "np_max_abs a =
     (case a of [] \<Rightarrow> Inl ValueError | x # xs \<Rightarrow> Inr (fold max (map abs xs) \<bar>x\<bar>))"

definition normalize_audio :: "audio \<Rightarrow> error + audio" where
  "normalize_audio a =
     (case np_max_abs a of
        Inl e \<Rightarrow> Inl e
      | Inr m \<Rightarrow> if m > 0 then Inr (map (\<lambda>x. x / m) a) else Inr a)"


text \<open>
  The try-bodies of the source are sequences of calls that stop at the first raise.
\<close>

definition then_do :: "error + 'a \<Rightarrow> ('a \<Rightarrow> error + 'b) \<Rightarrow> error + 'b" where
  "then_do m f = (case m of Inl e \<Rightarrow> Inl e | Inr x \<Rightarrow> f x)"

text \<open>
  The third-party numerical routines. They are parameters of the model: each may
  return an array or raise. \<open>np_random_normal level i\<close> is the \<open>i\<close>-th draw of
  \<open>np.random.normal(0, level, shape)\<close>.
\<close>

record librosa =
  librosa_load :: "string \<Rightarrow> int \<Rightarrow> error + audio"
  librosa_melspectrogram :: "audio \<Rightarrow> int \<Rightarrow> int \<Rightarrow> int \<Rightarrow> int \<Rightarrow> error + array2d"
  librosa_power_to_db :: "array2d \<Rightarrow> error + array2d"
  librosa_mfcc :: "audio \<Rightarrow> int \<Rightarrow> int \<Rightarrow> int \<Rightarrow> int \<Rightarrow> error + array2d"
  librosa_spectral_centroid :: "audio \<Rightarrow> int \<Rightarrow> int \<Rightarrow> error + array2d"
  librosa_spectral_rolloff :: "audio \<Rightarrow> int \<Rightarrow> int \<Rightarrow> error + array2d"
  librosa_zero_crossing_rate :: "audio \<Rightarrow> int \<Rightarrow> error + array2d"
  librosa_spectral_contrast :: "audio \<Rightarrow> int \<Rightarrow> int \<Rightarrow> error + array2d"
  librosa_tonnetz :: "audio \<Rightarrow> int \<Rightarrow> int \<Rightarrow> error + array2d"
  librosa_time_stretch :: "audio \<Rightarrow> real \<Rightarrow> error + audio"
  librosa_pitch_shift :: "audio \<Rightarrow> int \<Rightarrow> real \<Rightarrow> error + audio"
  np_random_normal :: "real \<Rightarrow> nat \<Rightarrow> real"

text \<open>\<open>load_audio\<close> logs and re-raises; the rate returned is the rate asked for.\<close>

definition load_audio :: "librosa \<Rightarrow> AudioPreprocessor \<Rightarrow> string \<Rightarrow> error + (audio \<times> int)" where
  "load_audio lib p file_path =
     (case librosa_load lib file_path (sample_rate p) of
        Inl e \<Rightarrow> Inl e
      | Inr a \<Rightarrow> Inr (a, sample_rate p))"

definition extract_mel_spectrogram :: "librosa \<Rightarrow> AudioPreprocessor \<Rightarrow> audio \<Rightarrow> error + array2d" where
  "extract_mel_spectrogram lib p a =
     then_do (librosa_melspectrogram lib a (sample_rate p) (n_fft p) (hop_length p) (n_mels p))
       (\<lambda>mel_spec. librosa_power_to_db lib mel_spec)"

definition extract_mfcc :: "librosa \<Rightarrow> AudioPreprocessor \<Rightarrow> audio \<Rightarrow> int \<Rightarrow> error + array2d" where
  "extract_mfcc lib p a n_mfcc =
     librosa_mfcc lib a (sample_rate p) n_mfcc (n_fft p) (hop_length p)"

record SpectralFeatures =
  spectral_centroid :: "real list"
  spectral_rolloff :: "real list"
  zero_crossing_rate :: "real list"
  spectral_contrast :: array2d
  tonnetz :: array2d

text \<open>\<open>x[0]\<close> on a two-dimensional array: the first row, IndexError when there is none.\<close>

definition row0 :: "array2d \<Rightarrow> error + real list" where
  "row0 m = (case m of [] \<Rightarrow> Inl IndexError | r # _ \<Rightarrow> Inr r)"

definition extract_spectral_features :: "librosa \<Rightarrow> AudioPreprocessor \<Rightarrow> audio \<Rightarrow> error + SpectralFeatures" where
  "extract_spectral_features lib p a =
     then_do (then_do (librosa_spectral_centroid lib a (sample_rate p) (hop_length p)) row0) (\<lambda>c.
     then_do (then_do (librosa_spectral_rolloff lib a (sample_rate p) (hop_length p)) row0) (\<lambda>r.
     then_do (then_do (librosa_zero_crossing_rate lib a (hop_length p)) row0) (\<lambda>z.
     then_do (librosa_spectral_contrast lib a (sample_rate p) (hop_length p)) (\<lambda>sc.
     then_do (librosa_tonnetz lib a (sample_rate p) (hop_length p)) (\<lambda>t.
       Inr \<lparr>spectral_centroid = c, spectral_rolloff = r, zero_crossing_rate = z,
            spectral_contrast = sc, tonnetz = t\<rparr>)))))"

text \<open>
  The dictionary \<open>process_audio_file\<close> builds. The key \<open>augmented\<close> is absent from it
  and set by \<open>augment_data\<close> only: \<open>None\<close> is the absent key.
\<close>

record ProcessedRecord =
  file_path :: string
  audio_data :: audio
  record_sample_rate :: int
  duration :: real
  mel_spectrogram :: array2d
  mfcc :: array2d
  spectral_features :: SpectralFeatures
  augmented :: "bool option"

text \<open>The body of the \<open>try\<close> in \<open>process_audio_file\<close>.\<close>

definition process_audio_file_body ::
  "librosa \<Rightarrow> AudioPreprocessor \<Rightarrow> string \<Rightarrow> error + ProcessedRecord option" where
  "process_audio_file_body lib p path =
     then_do (load_audio lib p path) (\<lambda>(a, sr).
     then_do (validate_audio_duration p a) (\<lambda>valid.
       if \<not> valid then Inr None
       else
         then_do (normalize_audio a) (\<lambda>a1.
         let a2 = trim_or_pad_audio p a1 None in
         then_do (extract_mel_spectrogram lib p a2) (\<lambda>mel.
         then_do (extract_mfcc lib p a2 13) (\<lambda>mf.
         then_do (extract_spectral_features lib p a2) (\<lambda>sf.
           Inr (Some \<lparr>file_path = path, audio_data = a2, record_sample_rate = sr,
                      duration = real (length a2) / real_of_int sr,
                      mel_spectrogram = mel, mfcc = mf, spectral_features = sf,
                      augmented = None\<rparr>)))))))"

text \<open>
  \<open>process_audio_file\<close>: the handler \<open>except Exception\<close> logs and returns None. The
  result is kept in the sum type so that what reaches the caller can be stated.
\<close>

definition process_audio_file ::
  "librosa \<Rightarrow> AudioPreprocessor \<Rightarrow> string \<Rightarrow> error + ProcessedRecord option" where
  "process_audio_file lib p path =
     (case process_audio_file_body lib p path of
        Inl e \<Rightarrow> Inr None
      | Inr r \<Rightarrow> Inr r)"

section \<open>DataAugmentation\<close>

text \<open>
  \<open>add_noise\<close>: \<open>np.random.normal\<close> raises ValueError for a negative scale; the sum
  \<open>audio + noise\<close> is elementwise over arrays of one shape.
\<close>

definition add_noise :: "librosa \<Rightarrow> audio \<Rightarrow> real \<Rightarrow> error + audio" where
  "add_noise lib a noise_level =
     (if noise_level < 0 then Inl ValueError
      else Inr (map (\<lambda>i. a ! i + np_random_normal lib noise_level i) [0..<length a]))"

definition time_stretch :: "librosa \<Rightarrow> audio \<Rightarrow> real \<Rightarrow> error + audio" where
  "time_stretch lib a rate =
     (case librosa_time_stretch lib a rate of
        Inl e \<Rightarrow> Inr a
      | Inr y \<Rightarrow> Inr y)"

definition pitch_shift :: "librosa \<Rightarrow> int \<Rightarrow> audio \<Rightarrow> real \<Rightarrow> error + audio" where
  "pitch_shift lib sr a n_steps =
     (case librosa_pitch_shift lib a sr n_steps of
        Inl e \<Rightarrow> Inr a
      | Inr y \<Rightarrow> Inr y)"


section \<open>PipelineStatus (pipeline\_utils.py)\<close>

text \<open>
  The JSON object \<open>update_status\<close> writes. The metadata dictionary is kept as an
  association list of rendered values; \<open>metadata or {}\<close> turns None into the empty one.
\<close>

record status_data =
  pipeline_id :: string
  status :: string
  progress :: real
  message :: string
  timestamp :: nat
  metadata :: "(string \<times> string) list"

text \<open>
  What the outside world does to one call of \<open>update_status\<close>: nothing, or a raise
  while the temporary file is written (\<open>open\<close>, \<open>json.dump\<close>), during the upload,
  or in \<open>os.remove\<close>.
\<close>

datatype fault = NoFault | SerializeFails | UploadFails | CleanupFails

text \<open>A local file holds a complete JSON document or what a failed dump left of it.\<close>

datatype local_file = Partial | Json status_data

text \<open>
  The state the tracker acts on: the blobs of the status bucket by name, the local
  temporary files, and the environment's script, which gives for each coming call of
  \<open>update_status\<close> the reading of \<open>timestamp_now()\<close> and the fault that strikes it
  (an exhausted script reads time 0 and strikes no fault). \<open>history\<close> is a ghost
  field: every document uploaded so far, oldest first.
\<close>

record world =
  gcs :: "string \<rightharpoonup> status_data"
  tmp :: "string \<rightharpoonup> local_file"
  history :: "status_data list"
  script :: "(nat \<times> fault) list"

definition status_prefix :: string where
  "status_prefix = ''pipeline_status/''"

definition next_event :: "world \<Rightarrow> nat \<times> fault" where
  "next_event w = (case script w of [] \<Rightarrow> (0, NoFault) | x # _ \<Rightarrow> x)"

definition update_status ::
  "world \<Rightarrow> string \<Rightarrow> string \<Rightarrow> real \<Rightarrow> string \<Rightarrow> (string \<times> string) list option
     \<Rightarrow> bool \<times> world" where
  "update_status w pid st pr msg md =
     (let (now, flt) = next_event w;
          w0 = w\<lparr>script := tl (script w)\<rparr>;
          data = \<lparr>pipeline_id = pid, status = st, progress = pr, message = msg,
                  timestamp = now,
                  metadata = (case md of None \<Rightarrow> [] | Some m \<Rightarrow> m)\<rparr>;
          status_file = ''/tmp/status_'' @ pid @ ''.json''
      in if flt = SerializeFails
         then (False, w0\<lparr>tmp := (tmp w0)(status_file \<mapsto> Partial)\<rparr>)
         else
           let w1 = w0\<lparr>tmp := (tmp w0)(status_file \<mapsto> Json data)\<rparr>;
               blob_name = status_prefix @ pid @ ''.json''
           in if flt = UploadFails then (False, w1)
              else
                let w2 = w1\<lparr>gcs := (gcs w1)(blob_name \<mapsto> data),
                            history := history w1 @ [data]\<rparr>
                in if flt = CleanupFails then (False, w2)
                   else (True, w2\<lparr>tmp := (tmp w2)(status_file := None)\<rparr>))"

text \<open>
  \<open>get_status\<close> downloads the blob and parses it; any failure, a missing blob
  included, is None. The model is the read of an undisturbed download.
\<close>

definition get_status :: "world \<Rightarrow> string \<Rightarrow> status_data option" where
  "get_status w pid = gcs w (status_prefix @ pid @ ''.json'')"


section \<open>DataProcessor (data\_processing/data\_processor.py)\<close>

subsection \<open>Strings\<close>

text \<open>\<open>str(n)\<close> for a natural number, as the f-strings of the messages render it.\<close>

fun str_nat :: "nat \<Rightarrow> string" where
  "str_nat n =
     (if n < 10 then [char_of (48 + n)]
      else str_nat (n div 10) @ [char_of (48 + n mod 10)])"

declare str_nat.simps [simp del]

text \<open>\<open>str(e)\<close> of an exception: its message.\<close>

fun str_error :: "error \<Rightarrow> string" where
  "str_error ValueError = ''ValueError''"
| "str_error IndexError = ''index out of range''"
| "str_error ZeroDivisionError = ''division by zero''"
| "str_error (External m) = m"





subsection \<open>Collaborators\<close>

text \<open>
  What the processor reaches outside itself, as parameters: the storage client
  behind \<open>StorageManager\<close>, the local file system, the scikit-learn scaler and
  splitter, and the order in which the worker pool completes the submitted files.
  The upload of a status document is not among them: the script of the world
  decides it call by call.
\<close>

type_synonym sample_metadata = "string \<times> real \<times> bool"

type_synonym split =
  "array2d \<times> array2d \<times> string list \<times> string list
     \<times> sample_metadata list \<times> sample_metadata list"

record externals =
  list_blobs :: "string \<Rightarrow> string \<Rightarrow> error + string list"
  download_to_filename :: "string \<Rightarrow> string \<Rightarrow> string \<Rightarrow> error + unit"
  upload_from_filename :: "string \<Rightarrow> string \<Rightarrow> string \<Rightarrow> error + unit"
  makedirs :: "string \<Rightarrow> error + unit"
  write_file :: "string \<Rightarrow> error + unit"
  remove_file :: "string \<Rightarrow> error + unit"
  fit_transform :: "array2d \<Rightarrow> error + array2d"
  train_test_split ::
    "array2d \<Rightarrow> string list \<Rightarrow> sample_metadata list \<Rightarrow> real \<Rightarrow> error + split"
  as_completed :: "string list \<Rightarrow> string list"




subsection \<open>Configuration\<close>

text \<open>
  The entries of the configuration the processor reads. \<open>augmentation_enabled\<close> is
  the optional key \<open>enabled\<close> of the augmentation section.
\<close>

record config =
  cfg_sample_rate :: int
  cfg_max_duration :: real
  cfg_min_duration :: real
  augmentation_enabled :: "bool option"
  validation_split :: real
  project_id :: string

definition preprocessor :: "config \<Rightarrow> AudioPreprocessor" where
  "preprocessor cfg =
     \<lparr>sample_rate = cfg_sample_rate cfg, n_fft = 2048, hop_length = 512, n_mels = 80,
      max_duration = cfg_max_duration cfg, min_duration = cfg_min_duration cfg\<rparr>"



text \<open>
  The handler every stage ends with: record the failure at the stage's checkpoint,
  then re-raise.
\<close>

definition stage_failed ::
  "world \<Rightarrow> string \<Rightarrow> real \<Rightarrow> string \<Rightarrow> error \<Rightarrow> (error + 'a) \<times> world" where
  "stage_failed w pid checkpoint what e =
     (let (_, w1) = update_status w pid ''failed'' checkpoint (what @ str_error e) None
      in (Inl e, w1))"

subsection \<open>download\_raw\_data\<close>





subsection \<open>process\_audio\_files\<close>

text \<open>
  The loop over \<open>enumerate(as_completed(futures))\<close>: the paths come in the order
  their futures complete, \<open>n\<close> is \<open>len(audio_files)\<close>, \<open>i\<close> the index of the
  completion at the head. A future whose result raises is logged and passed over,
  without a progress update.
\<close>

fun process_loop ::
  "librosa \<Rightarrow> AudioPreprocessor \<Rightarrow> string \<Rightarrow> nat \<Rightarrow> nat \<Rightarrow> string list
     \<Rightarrow> ProcessedRecord list \<Rightarrow> world \<Rightarrow> ProcessedRecord list \<times> world" where
  "process_loop lib p pid n i [] processed_data w = (processed_data, w)"
| "process_loop lib p pid n i (path # rest) processed_data w =
     (case process_audio_file lib p path of
        Inl e \<Rightarrow> process_loop lib p pid n (i + 1) rest processed_data w
      | Inr result \<Rightarrow>
          let processed_data1 =
                (case result of None \<Rightarrow> processed_data | Some r \<Rightarrow> processed_data @ [r]);
              progress = 0.3 + (real i / real n) * 0.4;
              (_, w1) = update_status w pid ''running'' progress
                          (''Processed '' @ str_nat (i + 1) @ ''/'' @ str_nat n @ '' files'')
                          None
          in process_loop lib p pid n (i + 1) rest processed_data1 w1)"

text \<open>
  Nothing in the body of \<open>process_audio_files\<close> raises in this model, so its
  handler (a failed update at 0.3, then re-raise) is never entered.
\<close>

definition process_audio_files ::
  "config \<Rightarrow> librosa \<Rightarrow> externals \<Rightarrow> world \<Rightarrow> string list \<Rightarrow> string
     \<Rightarrow> (error + ProcessedRecord list) \<times> world" where
  "process_audio_files cfg lib ex w audio_files pid =
     (let (_, w1) = update_status w pid ''running'' 0.3 ''Processing audio files'' None;
          (processed_data, w2) =
            process_loop lib (preprocessor cfg) pid (length audio_files) 0
              (as_completed ex audio_files) [] w1
      in (Inr processed_data, w2))"

subsection \<open>augment\_data\<close>

text \<open>
  The inner loop over \<open>enumerate(augmentations)\<close>: a copy of the record with the
  augmented audio, a suffixed path, the flag set and all features re-extracted from
  the augmented audio. An extraction that raises leaves the stage.
\<close>

fun augment_variants ::
  "librosa \<Rightarrow> AudioPreprocessor \<Rightarrow> ProcessedRecord \<Rightarrow> nat \<Rightarrow> audio list
     \<Rightarrow> error + ProcessedRecord list" where
  "augment_variants lib p data j [] = Inr []"
| "augment_variants lib p data j (aug_audio # rest) =
     then_do (extract_mel_spectrogram lib p aug_audio) (\<lambda>mel.
     then_do (extract_mfcc lib p aug_audio 13) (\<lambda>mf.
     then_do (extract_spectral_features lib p aug_audio) (\<lambda>sf.
     then_do (augment_variants lib p data (j + 1) rest) (\<lambda>more.
       Inr (data\<lparr>audio_data := aug_audio,
                  file_path := file_path data @ ''_aug_'' @ str_nat j,
                  augmented := Some True,
                  mel_spectrogram := mel, mfcc := mf, spectral_features := sf\<rparr>
            # more)))))"

text \<open>The three fixed augmentations of one record, computed before any is used.\<close>

definition augmentations :: "librosa \<Rightarrow> int \<Rightarrow> audio \<Rightarrow> error + audio list" where
  "augmentations lib sr a =
     then_do (add_noise lib a 0.005) (\<lambda>a0.
     then_do (time_stretch lib a 1.1) (\<lambda>a1.
     then_do (pitch_shift lib sr a 1.0) (\<lambda>a2.
       Inr [a0, a1, a2])))"

fun augment_loop ::
  "librosa \<Rightarrow> config \<Rightarrow> string \<Rightarrow> nat \<Rightarrow> nat \<Rightarrow> ProcessedRecord list
     \<Rightarrow> ProcessedRecord list \<Rightarrow> world \<Rightarrow> (error + ProcessedRecord list) \<times> world" where
  "augment_loop lib cfg pid n i [] augmented_data w = (Inr augmented_data, w)"
| "augment_loop lib cfg pid n i (data # rest) augmented_data w =
     (case then_do (augmentations lib (cfg_sample_rate cfg) (audio_data data))
             (augment_variants lib (preprocessor cfg) data 0) of
        Inl e \<Rightarrow> (Inl e, w)
      | Inr variants \<Rightarrow>
          let progress = 0.7 + (real i / real n) * 0.15;
              (_, w1) = update_status w pid ''running'' progress
                          (''Augmented '' @ str_nat (i + 1) @ ''/'' @ str_nat n @ '' files'')
                          None
          in augment_loop lib cfg pid n (i + 1) rest (augmented_data @ data # variants) w1)"

definition augment_data ::
  "config \<Rightarrow> librosa \<Rightarrow> world \<Rightarrow> ProcessedRecord list \<Rightarrow> string
     \<Rightarrow> (error + ProcessedRecord list) \<times> world" where
  "augment_data cfg lib w processed_data pid =
     (if \<not> (case augmentation_enabled cfg of None \<Rightarrow> True | Some b \<Rightarrow> b)
      then (Inr processed_data, w)
      else
        let (_, w1) = update_status w pid ''running'' 0.7 ''Applying data augmentation'' None;
            (r, w2) = augment_loop lib cfg pid (length processed_data) 0 processed_data [] w1
        in case r of
             Inl e \<Rightarrow> stage_failed w2 pid 0.7 ''Failed to augment data: '' e
           | Inr augmented_data \<Rightarrow> (Inr augmented_data, w2))"

subsection \<open>prepare\_dataset\<close>

text \<open>\<open>ndarray.flatten()\<close> of a two-dimensional array, row after row.\<close>

definition flatten :: "array2d \<Rightarrow> real list" where
  "flatten m = concat m"

definition feature_vector :: "ProcessedRecord \<Rightarrow> real list" where
  "feature_vector data =
     flatten (mel_spectrogram data) @ flatten (mfcc data)
       @ spectral_centroid (spectral_features data)
       @ spectral_rolloff (spectral_features data)
       @ zero_crossing_rate (spectral_features data)"

definition extract_label_from_filename :: "string \<Rightarrow> string" where
  "extract_label_from_filename filename = ''default_label''"

text \<open>
  \<open>np.array(features)\<close> builds a matrix from rows of one length. Rows of different
  lengths do not make one: numpy raises ValueError (older versions build an array of
  objects, which the scaler then rejects with ValueError).
\<close>

definition np_array :: "real list list \<Rightarrow> error + array2d" where
  "np_array rows =
     (if \<forall>r \<in> set rows. \<forall>r' \<in> set rows. length r = length r' then Inr rows
      else Inl ValueError)"

record dataset_stats =
  total_samples :: nat
  training_samples :: nat
  validation_samples :: nat
  feature_dim :: nat
  num_classes :: nat

record dataset =
  X_train :: array2d
  X_val :: array2d
  y_train :: "string list"
  y_val :: "string list"
  metadata_train :: "sample_metadata list"
  metadata_val :: "sample_metadata list"
  stats :: dataset_stats

text \<open>
  \<open>features.shape[1]\<close>: IndexError when the array has a single axis. The fitted
  scaler and the two constant tables of the dataset dictionary are left out of the
  record above.
\<close>

definition shape1 :: "array2d \<Rightarrow> error + nat" where
  "shape1 m = (case m of [] \<Rightarrow> Inl IndexError | r # _ \<Rightarrow> Inr (length r))"

definition prepare_dataset ::
  "config \<Rightarrow> externals \<Rightarrow> world \<Rightarrow> ProcessedRecord list \<Rightarrow> string
     \<Rightarrow> (error + dataset) \<times> world" where
  "prepare_dataset cfg ex w processed_data pid =
     (let (_, w1) = update_status w pid ''running'' 0.85 ''Preparing dataset'' None;
          rows = map feature_vector processed_data;
          labels = map (\<lambda>data. extract_label_from_filename (file_path data)) processed_data;
          meta = map (\<lambda>data. (file_path data, duration data,
                              (case augmented data of None \<Rightarrow> False | Some b \<Rightarrow> b)))
                   processed_data;
          r = then_do (np_array rows) (\<lambda>features.
              then_do (fit_transform ex features) (\<lambda>features_normalized.
              then_do (train_test_split ex features_normalized labels meta
                         (validation_split cfg))
                (\<lambda>(xt, xv, yt, yv, mt, mv).
              then_do (shape1 features) (\<lambda>dim.
                Inr \<lparr>X_train = xt, X_val = xv, y_train = yt, y_val = yv,
                     metadata_train = mt, metadata_val = mv,
                     stats = \<lparr>total_samples = length features,
                              training_samples = length xt,
                              validation_samples = length xv,
                              feature_dim = dim,
                              num_classes = length (remdups labels)\<rparr>\<rparr>))))
      in case r of
           Inl e \<Rightarrow> stage_failed w1 pid 0.85 ''Failed to prepare dataset: '' e
         | Inr ds \<Rightarrow> (Inr ds, w1))"

subsection \<open>save\_processed\_data\<close>


subsection \<open>run\_complete\_pipeline\<close>




section \<open>Notions used to state the properties\<close>

text \<open>
  The three outcomes of one file, read off the body of \<open>process_audio_file\<close>: the
  file loaded and its duration was out of range; some step raised; a record was
  produced.
\<close>

definition duration_skip :: "librosa \<Rightarrow> AudioPreprocessor \<Rightarrow> string \<Rightarrow> bool" where
  "duration_skip lib p path =
     (case load_audio lib p path of
        Inl e \<Rightarrow> False
      | Inr (a, sr) \<Rightarrow> validate_audio_duration p a = Inr False)"

definition hard_failure :: "librosa \<Rightarrow> AudioPreprocessor \<Rightarrow> string \<Rightarrow> bool" where
  "hard_failure lib p path = isl (process_audio_file_body lib p path)"

definition produced :: "librosa \<Rightarrow> AudioPreprocessor \<Rightarrow> string \<Rightarrow> ProcessedRecord option" where
  "produced lib p path =
     (case process_audio_file lib p path of Inr (Some r) \<Rightarrow> Some r | _ \<Rightarrow> None)"

text \<open>
  The status documents stored between two worlds of one run, oldest first, and their
  progress values.
\<close>

definition written :: "world \<Rightarrow> world \<Rightarrow> status_data list" where
  "written w w' = drop (length (history w)) (history w')"

definition progress_written :: "world \<Rightarrow> world \<Rightarrow> real list" where
  "progress_written w w' = map progress (written w w')"



section \<open>A concrete librosa for evaluation\<close>

text \<open>
  The concrete evaluations below need some instance of the numerical routines. This
  one returns arrays of the shapes librosa documents and fills them with zeros: a
  feature computed with centred frames has \<open>1 + len(y) // hop_length\<close> columns,
  \<open>time_stretch\<close> returns \<open>round(len(y) / rate)\<close> samples and rejects a rate that
  is not positive, \<open>pitch_shift\<close> keeps the length. Files are looked up in a table;
  a path that is not in it fails to load.
\<close>

definition n_frames :: "int \<Rightarrow> audio \<Rightarrow> nat" where
  "n_frames hop y = 1 + length y div nat hop"

definition zeros2d :: "nat \<Rightarrow> nat \<Rightarrow> array2d" where
  "zeros2d rows cols = replicate rows (replicate cols 0)"

definition framed :: "nat \<Rightarrow> int \<Rightarrow> audio \<Rightarrow> error + array2d" where
  "framed rows hop y =
     (if hop \<le> 0 then Inl (External ''hop_length must be positive'')
      else Inr (zeros2d rows (n_frames hop y)))"

definition librosa_shapes :: "(string \<times> audio) list \<Rightarrow> librosa" where
  "librosa_shapes files =
     \<lparr>librosa_load = (\<lambda>path sr. case map_of files path of
                                    None \<Rightarrow> Inl (External ''no such file'')
                                  | Some y \<Rightarrow> Inr y),
      librosa_melspectrogram = (\<lambda>y sr nfft hop nmels. framed (nat nmels) hop y),
      librosa_power_to_db = (\<lambda>S. Inr S),
      librosa_mfcc = (\<lambda>y sr nmfcc nfft hop. framed (nat nmfcc) hop y),
      librosa_spectral_centroid = (\<lambda>y sr hop. framed 1 hop y),
      librosa_spectral_rolloff = (\<lambda>y sr hop. framed 1 hop y),
      librosa_zero_crossing_rate = (\<lambda>y hop. framed 1 hop y),
      librosa_spectral_contrast = (\<lambda>y sr hop. framed 7 hop y),
      librosa_tonnetz = (\<lambda>y sr hop. framed 6 hop y),
      librosa_time_stretch = (\<lambda>y rate.
         if rate \<le> 0 then Inl (External ''rate must be a positive number'')
         else Inr (replicate (nat (round (real (length y) / rate))) 0)),
      librosa_pitch_shift = (\<lambda>y sr n_steps. Inr y),
      np_random_normal = (\<lambda>level i. 0)\<rparr>"

text \<open>
  Collaborators that never fail: the bucket lists the given blobs, every download,
  upload and file operation succeeds, the scaler returns its input, the splitter
  holds out the last \<open>\<lceil>test_size \<sqdot> n\<rceil>\<close> rows, and the pool completes the files in
  reverse order of submission.
\<close>

definition hold_out :: "real \<Rightarrow> 'a list \<Rightarrow> nat" where
  "hold_out test_size xs = nat \<lceil>test_size * real (length xs)\<rceil>"

definition quiet_externals :: "string list \<Rightarrow> externals" where
  "quiet_externals blobs =
     \<lparr>list_blobs = (\<lambda>bucket pre. Inr blobs),
      download_to_filename = (\<lambda>bucket blob path. Inr ()),
      upload_from_filename = (\<lambda>bucket blob path. Inr ()),
      makedirs = (\<lambda>path. Inr ()),
      write_file = (\<lambda>path. Inr ()),
      remove_file = (\<lambda>path. Inr ()),
      fit_transform = (\<lambda>x. Inr x),
      train_test_split = (\<lambda>x y m test_size.
         let k = length x - hold_out test_size x
         in Inr (take k x, drop k x, take k y, drop k y, take k m, drop k m)),
      as_completed = rev\<rparr>"

text \<open>
  A small configuration and file table for the evaluations: four samples a second,
  durations from one to two seconds; \<open>a.wav\<close> lasts one second, \<open>b.wav\<close> is empty.
\<close>

definition tiny_config :: config where
  "tiny_config =
     \<lparr>cfg_sample_rate = 4, cfg_max_duration = 2, cfg_min_duration = 1,
      augmentation_enabled = None, validation_split = 0.2, project_id = ''voicecast''\<rparr>"

definition tiny_files :: "(string \<times> audio) list" where
  "tiny_files = [(''a.wav'', [1, -2, 0, 1]), (''b.wav'', [])]"




text \<open>
  The configuration \<open>create_pipeline_config\<close> writes (its augmentation section has
  no key \<open>enabled\<close>), and the record of thirty seconds of silence under it: 661500
  samples, 1292 frames.
\<close>

definition default_config :: config where
  "default_config =
     \<lparr>cfg_sample_rate = 22050, cfg_max_duration = 30, cfg_min_duration = 1,
      augmentation_enabled = None, validation_split = 0.2,
      project_id = ''voicecast-464815''\<rparr>"

definition silent_record :: ProcessedRecord where
  "silent_record =
     \<lparr>file_path = ''/tmp/raw_audio/silence.wav'',
      audio_data = replicate 661500 0,
      record_sample_rate = 22050, duration = 30,
      mel_spectrogram = zeros2d 80 1292, mfcc = zeros2d 13 1292,
      spectral_features =
        \<lparr>spectral_centroid = replicate 1292 0, spectral_rolloff = replicate 1292 0,
         zero_crossing_rate = replicate 1292 0,
         spectral_contrast = zeros2d 7 1292, tonnetz = zeros2d 6 1292\<rparr>,
      augmented = None\<rparr>"

text \<open>A world with nothing stored and a given script.\<close>

definition fresh_world :: "(nat \<times> fault) list \<Rightarrow> world" where
  "fresh_world sc = \<lparr>gcs = Map.empty, tmp = Map.empty, history = [], script = sc\<rparr>"


section \<open>Properties of AudioPreprocessor\<close>

subsection \<open>Peak of a waveform\<close>

lemma fold_max_ge: "(m::real) \<le> fold max ys m"
  by (induction ys arbitrary: m) (auto intro: order_trans [OF max.cobounded2])

lemma fold_max_mem: "y \<in> set ys \<Longrightarrow> (y::real) \<le> fold max ys m"
proof (induction ys arbitrary: m)
  case Nil
  then show ?case by simp
next
  case (Cons z zs)
  show ?case
  proof (cases "y = z")
    case True
    have "z \<le> max z m" by simp
    also have "max z m \<le> fold max zs (max z m)" by (rule fold_max_ge)
    finally show ?thesis using True by simp
  next
    case False
    with Cons.prems have "y \<in> set zs" by simp
    then show ?thesis using Cons.IH by simp
  qed
qed

lemma fold_max_in: "fold max ys (m::real) \<in> insert m (set ys)"
  by (induction ys arbitrary: m) (auto simp: max_def)

lemma np_max_abs_Inr:
  assumes "a \<noteq> []"
  obtains m where "np_max_abs a = Inr m" "\<forall>x\<in>set a. \<bar>x\<bar> \<le> m" "\<exists>x\<in>set a. m = \<bar>x\<bar>"
proof -
  from assms obtain x xs where a: "a = x # xs" by (cases a) auto
  let ?m = "fold max (map abs xs) \<bar>x\<bar>"
  have 1: "np_max_abs a = Inr ?m" by (simp add: a np_max_abs_def)
  have 2: "\<forall>y\<in>set a. \<bar>y\<bar> \<le> ?m"
    using fold_max_ge [of "\<bar>x\<bar>" "map abs xs"] fold_max_mem [of _ "map abs xs" "\<bar>x\<bar>"]
    by (auto simp: a)
  have 3: "\<exists>y\<in>set a. ?m = \<bar>y\<bar>"
    using fold_max_in [of "map abs xs" "\<bar>x\<bar>"] by (auto simp: a)
  from 1 2 3 show ?thesis using that by blast
qed

subsection \<open>normalize\<close>

text \<open>
  Claim C7 (as amended). For every non-empty waveform \<open>normalize_audio\<close> returns a
  waveform of the same length whose samples all have absolute value at most 1; the
  output is all-zero exactly when the input is; when the peak is zero the input is
  returned unchanged, and otherwise every sample is divided by the positive peak, so
  no division by zero occurs.
\<close>

theorem normalize_audio_nonempty:
  assumes "a \<noteq> []"
  shows "\<exists>out m. normalize_audio a = Inr out \<and> np_max_abs a = Inr m
           \<and> length out = length a
           \<and> (\<forall>y\<in>set out. \<bar>y\<bar> \<le> 1)
           \<and> ((\<forall>y\<in>set out. y = 0) \<longleftrightarrow> (\<forall>x\<in>set a. x = 0))
           \<and> (m = 0 \<longrightarrow> out = a)
           \<and> (m > 0 \<longrightarrow> out = map (\<lambda>x. x / m) a)"
proof -
  from assms obtain m where m: "np_max_abs a = Inr m" "\<forall>x\<in>set a. \<bar>x\<bar> \<le> m" "\<exists>x\<in>set a. m = \<bar>x\<bar>"
    by (rule np_max_abs_Inr)
  have m0: "0 \<le> m" using m(3) by auto
  show ?thesis
  proof (cases "m > 0")
    case True
    have out: "normalize_audio a = Inr (map (\<lambda>x. x / m) a)"
      using True m(1) by (simp add: normalize_audio_def)
    have b: "\<forall>y\<in>set (map (\<lambda>x. x / m) a). \<bar>y\<bar> \<le> 1"
      using True m(2) by (auto simp: divide_le_eq_1)
    have z: "(\<forall>y\<in>set (map (\<lambda>x. x / m) a). y = 0) \<longleftrightarrow> (\<forall>x\<in>set a. x = 0)"
      using True by auto
    show ?thesis using out m(1) b z True by auto
  next
    case False
    with m0 have mz: "m = 0" by simp
    have out: "normalize_audio a = Inr a" using mz m(1) by (simp add: normalize_audio_def)
    have b: "\<forall>y\<in>set a. \<bar>y\<bar> \<le> 1" using m(2) mz by auto
    show ?thesis using out m(1) b mz by auto
  qed
qed

theorem normalize_audio_nonempty_witness:
  "[3, -4 :: real] \<noteq> [] \<and> normalize_audio [3, -4] = Inr [3/4, -1]"
  using normalize_audio_nonempty [of "[3, -4]"] by (simp add: normalize_audio_def np_max_abs_def)

text \<open>
  Claim C7 as stated quantifies over every signal. On the empty waveform the peak
  reduction has nothing to reduce and the function raises instead of returning.
\<close>

theorem normalize_audio_empty_raises:
  "normalize_audio [] = Inl ValueError"
  by (simp add: normalize_audio_def np_max_abs_def)

subsection \<open>fit\_length\<close>



subsection \<open>process\_one\<close>




section \<open>Properties of DataAugmentation\<close>



section \<open>Properties of PipelineStatus\<close>



text \<open>
  Claim C6 (as amended). When the first of two calls with identical arguments has
  stored its record, the second leaves the set of blobs unchanged and every other
  blob untouched; the record of this pipeline differs from the one after the first
  call at most in its timestamp, which is that of the first call or the time read
  by the second. When both calls read the same time the store is unchanged.
\<close>

theorem update_status_twice:
  assumes "snd (next_event w) \<notin> {SerializeFails, UploadFails}"
    and w1: "w1 = snd (update_status w pid st pr msg md)"
    and w2: "w2 = snd (update_status w1 pid st pr msg md)"
  shows "dom (gcs w2) = dom (gcs w1)
     \<and> (\<forall>k. k \<noteq> status_prefix @ pid @ ''.json'' \<longrightarrow> gcs w2 k = gcs w1 k)
     \<and> (\<exists>d1 d2. get_status w1 pid = Some d1 \<and> get_status w2 pid = Some d2
           \<and> d2 = d1\<lparr>timestamp := timestamp d2\<rparr>
           \<and> (timestamp d2 = timestamp d1 \<or> timestamp d2 = fst (next_event w1)))
     \<and> (fst (next_event w1) = fst (next_event w) \<longrightarrow> gcs w2 = gcs w1)"
proof -
  obtain t1 f1 where e1: "next_event w = (t1, f1)" by (cases "next_event w")
  obtain t2 f2 where e2: "next_event (snd (update_status w pid st pr msg md)) = (t2, f2)"
    by (cases "next_event (snd (update_status w pid st pr msg md))")
  from assms(1) e1 have f1: "f1 = NoFault \<or> f1 = CleanupFails" by (cases f1) simp_all
  show ?thesis
    using f1 e1 e2 unfolding w2 w1
    by (cases f2) (auto simp: update_status_def get_status_def Let_def)
qed

theorem update_status_twice_witness:
  "snd (next_event (fresh_world [(1, NoFault), (2, NoFault)])) \<notin> {SerializeFails, UploadFails}
   \<and> get_status (snd (update_status (snd (update_status (fresh_world [(1, NoFault), (2, NoFault)])
        ''p'' ''running'' 0.3 ''m'' None)) ''p'' ''running'' 0.3 ''m'' None)) ''p''
     = Some \<lparr>pipeline_id = ''p'', status = ''running'', progress = 0.3, message = ''m'',
               timestamp = 2, metadata = []\<rparr>
   \<and> dom (gcs (snd (update_status (snd (update_status (fresh_world [(1, NoFault), (2, NoFault)])
        ''p'' ''running'' 0.3 ''m'' None)) ''p'' ''running'' 0.3 ''m'' None)))
     = dom (gcs (snd (update_status (fresh_world [(1, NoFault), (2, NoFault)])
        ''p'' ''running'' 0.3 ''m'' None)))"
  using update_status_twice [of "fresh_world [(1, NoFault), (2, NoFault)]" _ "''p''" "''running''" "0.3" "''m''" None, OF _ refl refl]
  by (simp add: update_status_def get_status_def Let_def next_event_def fresh_world_def)

text \<open>
  Claim C6 as stated: the record after the second call equals the record after the
  first. Two calls that read different times store records that differ.
\<close>

theorem update_status_twice_differs:
  "get_status (snd (update_status (snd (update_status (fresh_world [(1, NoFault), (2, NoFault)])
        ''p'' ''running'' 0.3 ''m'' None)) ''p'' ''running'' 0.3 ''m'' None)) ''p''
   \<noteq> get_status (snd (update_status (fresh_world [(1, NoFault), (2, NoFault)])
        ''p'' ''running'' 0.3 ''m'' None)) ''p''"
  by (simp add: update_status_def get_status_def Let_def next_event_def fresh_world_def)

section \<open>Properties of the parallel extraction stage\<close>

subsection \<open>Concrete runs\<close>

lemmas eval_defs = process_audio_file_def process_audio_file_body_def load_audio_def
  librosa_shapes_def tiny_files_def tiny_config_def preprocessor_def then_do_def
  validate_audio_duration_def normalize_audio_def np_max_abs_def trim_or_pad_audio_def
  py_int_def extract_mel_spectrogram_def extract_mfcc_def extract_spectral_features_def
  framed_def n_frames_def zeros2d_def row0_def Let_def

lemmas world_defs = quiet_externals_def fresh_world_def update_status_def next_event_def
  split_def

subsection \<open>Accounting\<close>

lemma process_loop_records:
  "fst (process_loop lib p pid n i fs acc w) = acc @ List.map_filter (produced lib p) fs"
proof (induction fs arbitrary: i acc w)
  case Nil
  then show ?case by (simp add: List.map_filter_simps)
next
  case (Cons f fs)
  show ?case
  proof (cases "process_audio_file lib p f")
    case (Inl e)
    then show ?thesis using Cons.IH by (simp add: produced_def List.map_filter_simps)
  next
    case (Inr result)
    then show ?thesis using Cons.IH
      by (cases result) (simp_all add: produced_def List.map_filter_simps split_def Let_def)
  qed
qed

lemma body_outcome:
  "(process_audio_file_body lib p path = Inr None \<longleftrightarrow> duration_skip lib p path)"
  by (auto simp: process_audio_file_body_def duration_skip_def then_do_def Let_def
      split: sum.splits if_splits prod.splits)

lemma produced_cases:
  "(produced lib p path = None) \<longleftrightarrow> (duration_skip lib p path \<or> hard_failure lib p path)"
proof -
  have "produced lib p path = None \<longleftrightarrow>
          (process_audio_file_body lib p path = Inr None \<or> isl (process_audio_file_body lib p path))"
    by (auto simp: produced_def process_audio_file_def split: sum.splits option.splits)
  then show ?thesis by (simp add: body_outcome hard_failure_def)
qed

lemma skip_not_failure: "duration_skip lib p path \<Longrightarrow> \<not> hard_failure lib p path"
  using body_outcome [of lib p path] by (auto simp: hard_failure_def)

lemma outcome_count:
  "length (List.map_filter (produced lib p) fs)
     + length (filter (duration_skip lib p) fs) + length (filter (hard_failure lib p) fs)
   = length fs"
proof (induction fs)
  case Nil
  then show ?case by (simp add: List.map_filter_simps)
next
  case (Cons f fs)
  show ?case
  proof (cases "produced lib p f")
    case None
    then have "duration_skip lib p f \<or> hard_failure lib p f" by (simp add: produced_cases)
    then show ?thesis using Cons.IH None skip_not_failure [of lib p f]
      by (auto simp: List.map_filter_simps)
  next
    case (Some r)
    then have "\<not> duration_skip lib p f" "\<not> hard_failure lib p f"
      using produced_cases [of lib p f] by auto
    then show ?thesis using Cons.IH Some by (simp add: List.map_filter_simps)
  qed
qed

lemma filter_length_mset: "mset xs = mset ys \<Longrightarrow> length (filter P xs) = length (filter P ys)"
  by (metis mset_filter size_mset)

text \<open>
  Claim C3. Whatever the order of completion, \<open>process_audio_files\<close> returns a
  list of at most N records whose length plus the number of files skipped for their
  duration plus the number of files on which a step raised is N, and every file
  that yields a record has it in the list, whatever happened to the other files.
\<close>

theorem process_audio_files_accounting:
  assumes "mset (as_completed ex audio_files) = mset audio_files"
  shows "\<exists>records. fst (process_audio_files cfg lib ex w audio_files pid) = Inr records
     \<and> length records \<le> length audio_files
     \<and> length records
         + length (filter (duration_skip lib (preprocessor cfg)) audio_files)
         + length (filter (hard_failure lib (preprocessor cfg)) audio_files)
       = length audio_files
     \<and> (\<forall>path r. path \<in> set audio_files
           \<and> process_audio_file_body lib (preprocessor cfg) path = Inr (Some r)
           \<longrightarrow> r \<in> set records)"
proof -
  let ?p = "preprocessor cfg"
  let ?done = "as_completed ex audio_files"
  let ?records = "List.map_filter (produced lib ?p) ?done"
  have r: "fst (process_audio_files cfg lib ex w audio_files pid) = Inr ?records"
    using process_loop_records [of lib ?p pid "length audio_files" 0 ?done "[]"]
    by (simp add: process_audio_files_def split_def Let_def)
  have len: "length ?done = length audio_files"
    using assms by (metis size_mset)
  have cnt: "length ?records
         + length (filter (duration_skip lib ?p) audio_files)
         + length (filter (hard_failure lib ?p) audio_files)
       = length audio_files"
    using outcome_count [of lib ?p ?done] len
      filter_length_mset [OF assms, of "duration_skip lib ?p"]
      filter_length_mset [OF assms, of "hard_failure lib ?p"]
    by simp
  have mem: "\<forall>path r. path \<in> set audio_files
           \<and> process_audio_file_body lib ?p path = Inr (Some r) \<longrightarrow> r \<in> set ?records"
  proof (intro allI impI)
    fix path r
    assume a: "path \<in> set audio_files \<and> process_audio_file_body lib ?p path = Inr (Some r)"
    then have "path \<in> set ?done" using assms by (metis set_mset_mset)
    moreover have "produced lib ?p path = Some r"
      using a by (simp add: produced_def process_audio_file_def)
    ultimately show "r \<in> set ?records"
      by (force simp: List.map_filter_def)
  qed
  from r cnt mem show ?thesis by (intro exI [of _ ?records]) auto
qed

theorem process_audio_files_accounting_witness:
  "mset (as_completed (quiet_externals []) [''a.wav'', ''b.wav'', ''c.wav''])
     = mset [''a.wav'', ''b.wav'', ''c.wav'']
   \<and> map file_path (projr (fst (process_audio_files tiny_config (librosa_shapes tiny_files)
          (quiet_externals []) (fresh_world []) [''a.wav'', ''b.wav'', ''c.wav''] ''run'')))
       = [''a.wav'']
   \<and> filter (duration_skip (librosa_shapes tiny_files) (preprocessor tiny_config))
         [''a.wav'', ''b.wav'', ''c.wav''] = [''b.wav'']
   \<and> filter (hard_failure (librosa_shapes tiny_files) (preprocessor tiny_config))
         [''a.wav'', ''b.wav'', ''c.wav''] = [''c.wav'']"
  using process_audio_files_accounting [of "quiet_externals []"
      "[''a.wav'', ''b.wav'', ''c.wav'']" tiny_config "librosa_shapes tiny_files"
      "fresh_world []" "''run''"]
  by (simp add: process_audio_files_def eval_defs world_defs duration_skip_def
      hard_failure_def)

subsection \<open>Progress\<close>

text \<open>
  Claim C4, at a batch of one file. The claim has the progress after the first and
  only completion at 0.7; the stage stores 0.3 when it starts and 0.3 again after
  the completion, since the index of the completion counts from zero.
\<close>

theorem process_audio_files_progress_one_file:
  "progress_written (fresh_world [])
     (snd (process_audio_files tiny_config (librosa_shapes tiny_files) (quiet_externals [])
             (fresh_world []) [''a.wav''] ''run''))
   = [0.3, 0.3]"
  by (simp add: process_audio_files_def eval_defs world_defs progress_written_def
      written_def)

section \<open>Progress written by a pipeline run\<close>

subsection \<open>Composing pieces of a run\<close>


lemma written_self [simp]: "written w w = []"
  by (simp add: written_def)













subsection \<open>The three iterations\<close>





subsection \<open>The stages\<close>


lemma stage_failed_fst [simp]: "fst (stage_failed w pid c what e) = Inl e"
  by (simp add: stage_failed_def split_def)









subsection \<open>Concrete runs of the pipeline\<close>


lemma update_status_quiet:
  "script w = [] \<Longrightarrow>
     map progress (history (snd (update_status w pid st pr msg md)))
       = map progress (history w) @ [pr]
     \<and> script (snd (update_status w pid st pr msg md)) = []"
  by (simp add: update_status_def next_event_def Let_def)

lemmas update_status_quiet_progress [simp] = update_status_quiet [THEN conjunct1]
lemmas update_status_quiet_script [simp] = update_status_quiet [THEN conjunct2]


subsection \<open>The whole run\<close>




section \<open>Feature vectors after augmentation\<close>

subsection \<open>Shapes under the concrete librosa\<close>

lemma length_flatten_zeros: "length (flatten (zeros2d r c)) = r * c"
  by (induction r) (simp_all add: flatten_def zeros2d_def)

lemma shapes_mel:
  "extract_mel_spectrogram (librosa_shapes files) (preprocessor cfg) y
     = Inr (zeros2d 80 (n_frames 512 y))"
  by (simp add: extract_mel_spectrogram_def librosa_shapes_def preprocessor_def framed_def
      then_do_def)

lemma shapes_mfcc:
  "extract_mfcc (librosa_shapes files) (preprocessor cfg) y 13
     = Inr (zeros2d 13 (n_frames 512 y))"
  by (simp add: extract_mfcc_def librosa_shapes_def preprocessor_def framed_def)

lemma shapes_spectral:
  "extract_spectral_features (librosa_shapes files) (preprocessor cfg) y
     = Inr \<lparr>spectral_centroid = replicate (n_frames 512 y) 0,
            spectral_rolloff = replicate (n_frames 512 y) 0,
            zero_crossing_rate = replicate (n_frames 512 y) 0,
            spectral_contrast = zeros2d 7 (n_frames 512 y),
            tonnetz = zeros2d 6 (n_frames 512 y)\<rparr>"
  by (simp add: extract_spectral_features_def librosa_shapes_def preprocessor_def framed_def
      then_do_def row0_def zeros2d_def)

lemma shapes_variants:
  "\<exists>vs. augment_variants (librosa_shapes files) (preprocessor cfg) data j ys = Inr vs
        \<and> map (\<lambda>v. length (feature_vector v)) vs = map (\<lambda>y. 96 * n_frames 512 y) ys"
proof (induction ys arbitrary: j)
  case Nil
  then show ?case by simp
next
  case (Cons y ys)
  obtain vs where vs: "augment_variants (librosa_shapes files) (preprocessor cfg) data (j + 1) ys = Inr vs"
    "map (\<lambda>v. length (feature_vector v)) vs = map (\<lambda>y. 96 * n_frames 512 y) ys"
    using Cons.IH [of "j + 1"] by blast
  show ?case
    using vs
    by (simp add: shapes_mel shapes_mfcc shapes_spectral then_do_def feature_vector_def
        length_flatten_zeros)
qed

lemma stretched: "nat (round (661500 / 1.1 :: real)) = 601364"
  by (simp add: round_def floor_eq_iff)

lemma shapes_augmentations:
  "\<exists>a0 a1. augmentations (librosa_shapes files) sr (replicate 661500 0) = Inr [a0, a1, replicate 661500 0]
       \<and> length a0 = 661500 \<and> length a1 = 601364"
  using stretched
  by (simp add: augmentations_def add_noise_def time_stretch_def pitch_shift_def
      librosa_shapes_def then_do_def)


lemma fold_max_zeros: "fold max (map abs (replicate n 0)) 0 = (0::real)"
  by (induction n) simp_all

lemma np_max_abs_silence: "np_max_abs (replicate 661500 0) = Inr 0"
proof -
  have "replicate 661500 (0::real) = 0 # replicate 661499 0"
    using replicate_Suc [of 661499 "0::real"] by simp
  moreover have "np_max_abs (0 # replicate 661499 0)
      = Inr (fold max (map abs (replicate 661499 0)) \<bar>0\<bar>)"
    by (simp only: np_max_abs_def list.case)
  ultimately show ?thesis
    using fold_max_zeros [of 661499] by (simp only: abs_zero)
qed

lemma silent_record_processed:
  "process_audio_file (librosa_shapes [(''/tmp/raw_audio/silence.wav'', replicate 661500 0)])
     (preprocessor default_config) ''/tmp/raw_audio/silence.wav''
   = Inr (Some silent_record)"
proof -
  have p: "sample_rate (preprocessor default_config) = 22050"
    "max_duration (preprocessor default_config) = 30"
    "min_duration (preprocessor default_config) = 1"
    by (simp_all add: preprocessor_def default_config_def)
  have l: "load_audio (librosa_shapes [(''/tmp/raw_audio/silence.wav'', replicate 661500 0)])
     (preprocessor default_config) ''/tmp/raw_audio/silence.wav'' = Inr (replicate 661500 0, 22050)"
    by (simp add: load_audio_def librosa_shapes_def p)
  have v: "validate_audio_duration (preprocessor default_config) (replicate 661500 0) = Inr True"
    by (simp add: validate_audio_duration_def p)
  have n: "normalize_audio (replicate 661500 0) = Inr (replicate 661500 0)"
    by (simp add: normalize_audio_def np_max_abs_silence)
  have t: "trim_or_pad_audio (preprocessor default_config) (replicate 661500 0) None
      = replicate 661500 0"
    by (simp add: trim_or_pad_audio_def p py_int_def)
  have f: "n_frames 512 (replicate 661500 (0::real)) = 1292"
    by (simp add: n_frames_def)
  show ?thesis
    by (simp add: process_audio_file_def process_audio_file_body_def l v n t then_do_def
        shapes_mel shapes_mfcc shapes_spectral f silent_record_def p)
qed


subsection \<open>Vector lengths in an augmented batch\<close>

text \<open>
  Claim C1, at a batch of one record under the default configuration: thirty
  seconds of silence, as \<open>process_audio_file\<close> returns it (lemma
  \<open>silent_record_processed\<close>). The claim has every vector of the batch of one
  length. \<open>augment_data\<close> re-extracts the features of the time-stretched variant
  from 601364 samples, not from the 661500 of the fitted audio, so the four vectors
  have lengths 124032, 124032, 112800 and 124032, and \<open>prepare_dataset\<close> fails
  with ValueError when it builds the feature matrix.
\<close>

theorem augmented_vectors_differ_in_length:
  "map_sum id (map (\<lambda>v. length (feature_vector v)))
     (fst (augment_data default_config (librosa_shapes []) (fresh_world [])
             [silent_record] ''run''))
     = Inr [124032, 124032, 112800, 124032]
   \<and> fst (prepare_dataset default_config (quiet_externals []) (fresh_world [])
            (projr (fst (augment_data default_config (librosa_shapes []) (fresh_world [])
                           [silent_record] ''run'')))
            ''run'')
     = Inl ValueError"
proof -
  let ?lib = "librosa_shapes []"
  obtain a0 a1 where a: "augmentations ?lib 22050 (replicate 661500 0) = Inr [a0, a1, replicate 661500 0]"
    "length a0 = 661500" "length a1 = 601364"
    using shapes_augmentations [of "[]" 22050] by blast
  obtain vs where vs: "augment_variants ?lib (preprocessor default_config) silent_record 0
        [a0, a1, replicate 661500 0] = Inr vs"
    "map (\<lambda>v. length (feature_vector v)) vs = map (\<lambda>y. 96 * n_frames 512 y) [a0, a1, replicate 661500 0]"
    using shapes_variants [of "[]" default_config silent_record 0 "[a0, a1, replicate 661500 0]"] by blast
  have lens: "map (\<lambda>v. length (feature_vector v)) vs = [124032, 112800, 124032]"
    using vs(2) a(2,3) by (simp add: n_frames_def)
  have own: "length (feature_vector silent_record) = 124032"
    by (simp add: feature_vector_def silent_record_def length_flatten_zeros)
  have aug: "fst (augment_data default_config ?lib (fresh_world []) [silent_record] ''run'')
      = Inr (silent_record # vs)"
    using a(1) vs(1)
    by (simp add: augment_data_def default_config_def [of ] split_def Let_def then_do_def
        silent_record_def [of ] cong: if_cong)
  obtain v0 v1 v2 where v: "vs = [v0, v1, v2]"
    using lens by (auto simp: map_eq_Cons_conv)
  have l: "length (feature_vector v0) = 124032" "length (feature_vector v1) = 112800"
    using lens v by simp_all
  have ragged: "np_array (map feature_vector (silent_record # vs)) = Inl ValueError"
  proof -
    have "\<not> (\<forall>r \<in> set (map feature_vector (silent_record # vs)).
             \<forall>r' \<in> set (map feature_vector (silent_record # vs)). length r = length r')"
      using l v by auto
    then show ?thesis unfolding np_array_def by (simp only: if_False)
  qed
  have prep: "fst (prepare_dataset default_config (quiet_externals []) (fresh_world [])
            (silent_record # vs) ''run'') = Inl ValueError"
    unfolding prepare_dataset_def
    by (simp only: ragged split_def Let_def then_do_def sum.case stage_failed_fst)
  show ?thesis using aug lens own prep by simp
qed

end
